theory Spec2Isabelle
  imports Main
begin

section \<open>JavaScript strings\<close>

text \<open>
  A JavaScript string is a sequence of UTF-16 code units. It is modelled as a
  \<^typ>\<open>string\<close>, one \<^typ>\<open>char\<close> per code unit, so the model covers
  the strings whose code units are below 256 (ASCII and Latin-1), and \<open>length\<close> is
  the \<open>.length\<close> of the source. On these strings the definitions below compute
  what the source computes. The lower case of such a string is such a string again;
  its upper case need not be, and \<open>toUpperCase\<close> says so.
\<close>

definition isWhiteSpace :: "char \<Rightarrow> bool" where
  \<comment> \<open>the class \<open>\s\<close> and the code units removed by \<open>trim()\<close>: TAB, LF, VT, FF, CR, SP, NBSP\<close>
  "isWhiteSpace c =
     (c = CHR 0x09 \<or> c = CHR ''\<newline>'' \<or> c = CHR 0x0B \<or> c = CHR 0x0C \<or> c = CHR 0x0D
      \<or> c = CHR '' '' \<or> c = CHR 0xA0)"

definition isLineTerminator :: "char \<Rightarrow> bool" where
  \<comment> \<open>the code units that \<open>.\<close> does not match, and at which \<open>^\<close> and \<open>$\<close> match under the flag \<open>m\<close>\<close>
  "isLineTerminator c = (c = CHR ''\<newline>'' \<or> c = CHR 0x0D)"

definition lowerLetters :: string where
  "lowerLetters = ''abcdefghijklmnopqrstuvwxyz''"

definition upperLetters :: string where
  "upperLetters = ''ABCDEFGHIJKLMNOPQRSTUVWXYZ''"

definition digits :: string where
  "digits = ''0123456789''"

definition upperLatin1 :: string where
  \<comment> \<open>the capital letters of Latin-1: U+00C0 to U+00DE without the sign U+00D7\<close>
  "upperLatin1 =
     [CHR 0xC0, CHR 0xC1, CHR 0xC2, CHR 0xC3, CHR 0xC4, CHR 0xC5, CHR 0xC6, CHR 0xC7,
     CHR 0xC8, CHR 0xC9, CHR 0xCA, CHR 0xCB, CHR 0xCC, CHR 0xCD, CHR 0xCE, CHR 0xCF,
     CHR 0xD0, CHR 0xD1, CHR 0xD2, CHR 0xD3, CHR 0xD4, CHR 0xD5, CHR 0xD6, CHR 0xD8,
     CHR 0xD9, CHR 0xDA, CHR 0xDB, CHR 0xDC, CHR 0xDD, CHR 0xDE]"

definition lowerLatin1 :: string where
  \<comment> \<open>their small letters: U+00E0 to U+00FE without the sign U+00F7\<close>
  "lowerLatin1 =
     [CHR 0xE0, CHR 0xE1, CHR 0xE2, CHR 0xE3, CHR 0xE4, CHR 0xE5, CHR 0xE6, CHR 0xE7,
     CHR 0xE8, CHR 0xE9, CHR 0xEA, CHR 0xEB, CHR 0xEC, CHR 0xED, CHR 0xEE, CHR 0xEF,
     CHR 0xF0, CHR 0xF1, CHR 0xF2, CHR 0xF3, CHR 0xF4, CHR 0xF5, CHR 0xF6, CHR 0xF8,
     CHR 0xF9, CHR 0xFA, CHR 0xFB, CHR 0xFC, CHR 0xFD, CHR 0xFE]"

definition toUpperChar :: "char \<Rightarrow> char" where
  \<comment> \<open>the capital of a small letter that has one below 256; any other code unit as it is\<close>
  "toUpperChar c =
     (case map_of (zip (lowerLetters @ lowerLatin1) (upperLetters @ upperLatin1)) c of
        Some u \<Rightarrow> u
      | None \<Rightarrow> c)"

definition toLowerChar :: "char \<Rightarrow> char" where
  "toLowerChar c =
     (case map_of (zip (upperLetters @ upperLatin1) (lowerLetters @ lowerLatin1)) c of
        Some l \<Rightarrow> l
      | None \<Rightarrow> c)"

definition upperCaseOf :: "char \<Rightarrow> string option" where
  \<comment> \<open>the upper case of one code unit: U+00B5 and U+00FF become U+039C and U+0178, which
      are no code units below 256; U+00DF becomes \<open>SS\<close>\<close>
  "upperCaseOf c =
     (if c = CHR 0xB5 \<or> c = CHR 0xFF then None
      else if c = CHR 0xDF then Some ''SS''
      else Some [toUpperChar c])"

definition toUpperCase :: "string \<Rightarrow> string option" where
  \<comment> \<open>\<open>s.toUpperCase()\<close>; \<open>None\<close> when it holds a code unit of 256 or more, and so
      differs from every string of the model\<close>
  "toUpperCase s = map_option concat (those (map upperCaseOf s))"

definition toLowerCase :: "string \<Rightarrow> string" where
  "toLowerCase s = map toLowerChar s"

definition isWordChar :: "char \<Rightarrow> bool" where
  \<comment> \<open>the class \<open>\w\<close>\<close>
  "isWordChar c = (c \<in> set lowerLetters \<or> c \<in> set upperLetters \<or> c \<in> set digits \<or> c = CHR ''_'')"

definition trim :: "string \<Rightarrow> string" where
  "trim s = rev (dropWhile isWhiteSpace (rev (dropWhile isWhiteSpace s)))"

definition startsWith :: "string \<Rightarrow> string \<Rightarrow> bool" where
  "startsWith s p = (take (length p) s = p)"

definition endsWith :: "string \<Rightarrow> string \<Rightarrow> bool" where
  "endsWith s p = (length p \<le> length s \<and> drop (length s - length p) s = p)"

text \<open>
  \<open>s.split(sep)\<close> for a non-empty separator: the separators are found from left to
  right and do not overlap. The counter is the number of code units of a separator
  still to be skipped.
\<close>

fun splitFrom :: "string \<Rightarrow> nat \<Rightarrow> string \<Rightarrow> string list" where
  "splitFrom sep n [] = [[]]"
| "splitFrom sep (Suc n) (c # cs) = splitFrom sep n cs"
| "splitFrom sep 0 (c # cs) =
     (if startsWith (c # cs) sep then [] # splitFrom sep (length sep - 1) cs
      else (case splitFrom sep 0 cs of
              p # ps \<Rightarrow> (c # p) # ps
            | [] \<Rightarrow> [[c]]))"

definition split :: "string \<Rightarrow> string \<Rightarrow> string list" where
  "split s sep = splitFrom sep 0 s"

fun join :: "string list \<Rightarrow> string \<Rightarrow> string" where
  "join [] sep = []"
| "join [x] sep = x"
| "join (x # y # ys) sep = x @ sep @ join (y # ys) sep"

text \<open>
  \<open>s.replace(re, r)\<close> for a regular expression with the flag \<open>g\<close>. The expression is
  given by its matcher: from the code unit before the position (\<open>None\<close> at the start
  of the input) and the input from the position on, the length of the match at this
  position and the text that replaces it, or \<open>None\<close> when the expression does not
  match there. Every expression of the program matches at least one code unit. The
  search resumes behind a match; where there is none, the code unit is kept and the
  search moves on by one.
\<close>

type_synonym regExp = "char option \<Rightarrow> string \<Rightarrow> (nat \<times> string) option"

fun replaceFrom :: "regExp \<Rightarrow> char option \<Rightarrow> nat \<Rightarrow> string \<Rightarrow> string" where
  "replaceFrom re prev n [] = []"
| "replaceFrom re prev (Suc n) (c # cs) = replaceFrom re (Some c) n cs"
| "replaceFrom re prev 0 (c # cs) =
     (case re prev (c # cs) of
        Some (len, r) \<Rightarrow> r @ replaceFrom re (Some c) (len - 1) cs
      | None \<Rightarrow> c # replaceFrom re (Some c) 0 cs)"

definition replace :: "string \<Rightarrow> regExp \<Rightarrow> string" where
  "replace s re = replaceFrom re None 0 s"

definition wordStart :: regExp where
  \<comment> \<open>\<open>/\b\w/g\<close> with the replacement \<open>l => l.toUpperCase()\<close>; \<open>l\<close> is one
      character of the class \<open>\w\<close>, whose upper case is the code unit \<open>toUpperChar l\<close>\<close>
  "wordStart prev s =
     (case s of
        [] \<Rightarrow> None
      | c # cs \<Rightarrow>
          if isWordChar c \<and> \<not> (case prev of None \<Rightarrow> False | Some p \<Rightarrow> isWordChar p)
          then Some (1, [toUpperChar c]) else None)"

definition startsWithIgnoreCase :: "string \<Rightarrow> string \<Rightarrow> bool" where
  \<comment> \<open>a literal under the flag \<open>i\<close>, at the head of the input\<close>
  "startsWithIgnoreCase s p = (toLowerCase (take (length p) s) = toLowerCase p)"

text \<open>
  A lazy repetition followed by the rest of the expression: the least number of code
  units, each of them allowed, after which the rest matches.
\<close>

fun lazyUntil :: "(string \<Rightarrow> bool) \<Rightarrow> (char \<Rightarrow> bool) \<Rightarrow> string \<Rightarrow> nat option" where
  "lazyUntil rest allowed [] = (if rest [] then Some 0 else None)"
| "lazyUntil rest allowed (c # cs) =
     (if rest (c # cs) then Some 0
      else if allowed c then map_option Suc (lazyUntil rest allowed cs)
      else None)"

definition literal :: "string \<Rightarrow> string \<Rightarrow> regExp" where
  \<comment> \<open>a literal text \<open>p\<close>, replaced by \<open>r\<close>\<close>
  "literal p r prev s = (if startsWith s p then Some (length p, r) else None)"

definition oneOf :: "string \<Rightarrow> string \<Rightarrow> regExp" where
  \<comment> \<open>a character class \<open>[...]\<close>, replaced by \<open>r\<close>\<close>
  "oneOf cls r prev s =
     (case s of [] \<Rightarrow> None | c # cs \<Rightarrow> if c \<in> set cls then Some (1, r) else None)"

definition whiteSpaceRun :: "string \<Rightarrow> regExp" where
  \<comment> \<open>\<open>/\s+/g\<close>, replaced by \<open>r\<close>\<close>
  "whiteSpaceRun r prev s =
     (case s of
        [] \<Rightarrow> None
      | c # cs \<Rightarrow> if isWhiteSpace c then Some (length (takeWhile isWhiteSpace s), r) else None)"

definition element :: "string \<Rightarrow> regExp" where
  \<comment> \<open>\<open>/<name[^>]*>[\s\S]*?<\/name>/gi\<close>, replaced by the empty string\<close>
  "element name prev s =
     (let opening = ''<'' @ name; closing = ''</'' @ name @ ''>'' in
      if startsWithIgnoreCase s opening then
        (let r = drop (length opening) s;
             attrs = takeWhile (\<lambda>c. c \<noteq> CHR ''>'') r
         in case drop (length attrs) r of
              [] \<Rightarrow> None
            | g # body \<Rightarrow>
                (case lazyUntil (\<lambda>t. startsWithIgnoreCase t closing) (\<lambda>c. True) body of
                   None \<Rightarrow> None
                 | Some k \<Rightarrow> Some (length opening + length attrs + 1 + k + length closing, [])))
      else None)"

definition tag :: "bool \<Rightarrow> regExp" where
  \<comment> \<open>\<open>/<[^>]+>/g\<close> when \<open>nonEmpty\<close>, \<open>/<[^>]*>/g\<close> otherwise, replaced by the empty string\<close>
  "tag nonEmpty prev s =
     (case s of
        [] \<Rightarrow> None
      | c # r \<Rightarrow>
          if c = CHR ''<'' then
            (let inner = takeWhile (\<lambda>c. c \<noteq> CHR ''>'') r in
             if (nonEmpty \<and> inner = []) \<or> drop (length inner) r = [] then None
             else Some (1 + length inner + 1, []))
          else None)"

section \<open>The stdio server: helper functions\<close>

definition markdownLine :: "string \<Rightarrow> string" where
  \<comment> \<open>the body of the loop of \<open>convertTextToMarkdown\<close>: the line pushed for \<open>line\<close>\<close>
  "markdownLine line =
     (let trimmedLine = trim line in
      if trimmedLine = [] then []
      else if Some trimmedLine = toUpperCase trimmedLine \<and> length trimmedLine > 3
        then ''# '' @ replace (toLowerCase trimmedLine) wordStart
      else if endsWith trimmedLine '':'' then ''## '' @ butlast trimmedLine
      else trimmedLine)"

definition convertTextToMarkdown :: "string \<Rightarrow> string" where
  "convertTextToMarkdown text = join (map markdownLine (split text ''\<newline>'')) ''\<newline>''"

definition convertHtmlToText :: "string \<Rightarrow> string" where
  "convertHtmlToText htmlContent =
     trim
       (replace
         (replace
           (replace
             (replace
               (replace
                 (replace
                   (replace
                     (replace
                       (replace
                         (replace htmlContent (element ''script''))
                         (element ''style''))
                       (tag True))
                     (literal ''&nbsp;'' '' ''))
                   (literal ''&amp;'' ''&''))
                 (literal ''&lt;'' ''<''))
               (literal ''&gt;'' ''>''))
             (literal ''&quot;'' ''\"''))
           (literal ''&#39;'' [CHR 0x27]))
         (whiteSpaceRun '' ''))"

section \<open>Errors and optional libraries\<close>

text \<open>
  Every failure of the program is a JavaScript \<open>Error\<close> carrying a message; the
  program has no other kind of error, and what distinguishes one failure from another
  is the text of its message. \<open>errorToString\<close> is \<open>String(error)\<close>.
\<close>

datatype error = Error (message: string)

definition errorToString :: "error \<Rightarrow> string" where
  "errorToString e = (if message e = [] then ''Error'' else ''Error: '' @ message e)"

definition andThen :: "error + 'a \<Rightarrow> ('a \<Rightarrow> error + 'b) \<Rightarrow> error + 'b" where
  \<comment> \<open>sequencing inside a \<open>try\<close> block: the first failure is the one thrown\<close>
  "andThen r f = (case r of Inl e \<Rightarrow> Inl e | Inr x \<Rightarrow> f x)"

text \<open>
  The optional dependencies are loaded once when the process starts; a library that
  could not be loaded is \<open>None\<close>. A library that is present is the function the
  program uses it for, which may throw:
  \<^item> \<open>marked\<close>: \<open>marked.parse\<close>, from Markdown to HTML;
  \<^item> \<open>turndown\<close>: \<open>new turndown().turndown\<close>, from HTML to Markdown;
  \<^item> \<open>puppeteer\<close>: \<open>launch\<close> and \<open>newPage\<close>, which throw or give a page; the page
    is \<open>setContent\<close> followed by \<open>pdf\<close> with the options of the caller, from HTML to
    the base64 text of the PDF bytes;
  \<^item> \<open>officegen\<close>: a \<open>docx\<close> object, from the paragraphs added to it (the text,
    and whether it is added bold at size 16) to the base64 text of the bytes generated;
  \<^item> \<open>mammoth\<close>: \<open>extractRawText\<close> on the buffer decoded from base64 content;
  \<^item> \<open>pdfParse\<close>: the text of the buffer decoded from base64 content.
\<close>

type_synonym page = "string \<Rightarrow> error + string"

record libraries =
  marked :: "(string \<Rightarrow> error + string) option"
  turndown :: "(string \<Rightarrow> error + string) option"
  puppeteer :: "(error + page) option"
  officegen :: "((string \<times> bool) list \<Rightarrow> error + string) option"
  mammoth :: "(string \<Rightarrow> error + string) option"
  pdfParse :: "(string \<Rightarrow> error + string) option"

definition SUPPORTED_FORMATS_input :: "string list" where
  "SUPPORTED_FORMATS_input = [''txt'', ''md'', ''html'', ''docx'', ''pdf'', ''rtf'']"

definition SUPPORTED_FORMATS_output :: "string list" where
  "SUPPORTED_FORMATS_output = [''txt'', ''md'', ''html'', ''docx'', ''pdf'', ''rtf'']"

section \<open>The stdio server: conversions\<close>

definition convertMarkdownToHtml :: "libraries \<Rightarrow> string \<Rightarrow> error + string" where
  "convertMarkdownToHtml libs mdText =
     (case marked libs of
        None \<Rightarrow> Inl (Error ''Marked library not available. Install with: npm install marked'')
      | Some parse \<Rightarrow>
          andThen (parse mdText) (\<lambda>html. Inr (
            ''<!DOCTYPE html>\<newline>''
            @ ''<html>\<newline>''
            @ ''<head>\<newline>''
            @ ''    <meta charset=\"utf-8\">\<newline>''
            @ ''    <title>Converted Document</title>\<newline>''
            @ ''    <style>\<newline>''
            @ ''        body { font-family: Arial, sans-serif; margin: 40px; line-height: 1.6; }\<newline>''
            @ ''        code { background-color: #f4f4f4; padding: 2px 4px; border-radius: 3px; }\<newline>''
            @ ''        pre { background-color: #f4f4f4; padding: 10px; border-radius: 5px; overflow-x: auto; }\<newline>''
            @ ''        blockquote { border-left: 4px solid #ddd; margin: 0; padding-left: 20px; color: #666; }\<newline>''
            @ ''    </style>\<newline>''
            @ ''</head>\<newline>''
            @ ''<body>\<newline>''
            @ html
            @ ''\<newline>''
            @ ''</body>\<newline>''
            @ ''</html>'')))"

definition convertHtmlToMarkdown :: "libraries \<Rightarrow> string \<Rightarrow> error + string" where
  "convertHtmlToMarkdown libs htmlContent =
     (case turndown libs of
        None \<Rightarrow> (let text = convertHtmlToText htmlContent in Inr (convertTextToMarkdown text))
      | Some service \<Rightarrow> service htmlContent)"

definition textToHtmlDocument :: "string \<Rightarrow> string" where
  \<comment> \<open>the branch for plain text, written out twice in the source: in \<open>convertToPdf\<close>
      and under \<open>output === "html"\<close> in \<open>convertDocument\<close>\<close>
  "textToHtmlDocument content =
     (let escapedContent =
            replace (replace (replace content (literal ''&'' ''&amp;'')) (literal ''<'' ''&lt;''))
              (literal ''>'' ''&gt;'');
          paragraphs = split escapedContent ''\<newline>\<newline>'';
          htmlParagraphs =
            map (\<lambda>para. ''<p>'' @ replace para (literal ''\<newline>'' ''<br>'') @ ''</p>'')
              (filter (\<lambda>para. trim para \<noteq> []) paragraphs)
      in ''<!DOCTYPE html>\<newline>''
         @ ''<html>\<newline>''
         @ ''<head>\<newline>''
         @ ''    <meta charset=\"utf-8\">\<newline>''
         @ ''    <title>Converted Document</title>\<newline>''
         @ ''    <style>body { font-family: Arial, sans-serif; margin: 40px; line-height: 1.6; }</style>\<newline>''
         @ ''</head>\<newline>''
         @ ''<body>\<newline>''
         @ join htmlParagraphs []
         @ ''\<newline>''
         @ ''</body>\<newline>''
         @ ''</html>'')"

definition convertToPdf :: "libraries \<Rightarrow> string \<Rightarrow> string \<Rightarrow> error + string" where
  "convertToPdf libs content contentType =
     (case puppeteer libs of
        None \<Rightarrow> Inl (Error ''Puppeteer library not available. Install with: npm install puppeteer'')
      | Some launch \<Rightarrow>
          andThen launch (\<lambda>page.
          andThen (if contentType = ''html'' then Inr content
                   else if contentType = ''markdown'' then convertMarkdownToHtml libs content
                   else Inr (textToHtmlDocument content)) (\<lambda>htmlContent.
          page htmlContent)))"

definition headingMarks :: "string \<Rightarrow> string" where
  \<comment> \<open>\<open>para.replace(/^#+\s*/, "")\<close>\<close>
  "headingMarks para =
     (if startsWith para ''#''
      then dropWhile isWhiteSpace (dropWhile (\<lambda>c. c = CHR ''#'') para)
      else para)"

definition docxParagraphs :: "string list \<Rightarrow> (string \<times> bool) list" where
  \<comment> \<open>the loop of \<open>convertToDocx\<close>: the text added for each paragraph that is not blank\<close>
  "docxParagraphs paragraphs =
     map (\<lambda>para.
            if length para < 50 \<and> (Some para = toUpperCase para \<or> startsWith para ''#'')
            then (trim (headingMarks para), True)
            else (trim para, False))
       (filter (\<lambda>para. trim para \<noteq> []) paragraphs)"

definition convertToDocx :: "libraries \<Rightarrow> string \<Rightarrow> string \<Rightarrow> error + string" where
  "convertToDocx libs content contentType =
     (case officegen libs of
        None \<Rightarrow> Inl (Error ''Officegen library not available. Install with: npm install officegen'')
      | Some docx \<Rightarrow>
          (let textContent =
                 (if contentType = ''html'' then convertHtmlToText content
                  else if contentType = ''markdown'' then replace content (oneOf ''#*_`'' [])
                  else content);
               paragraphs = split textContent ''\<newline>\<newline>''
           in docx (docxParagraphs paragraphs)))"

text \<open>
  \<open>convertDocument\<close> of the class \<open>DocumentConverterStdioServer\<close>. The two checks
  of the formats throw outside the \<open>try\<close> block; \<open>readInput\<close> and \<open>writeOutput\<close>
  are the two halves of the block, and whatever they throw is thrown again with the
  message prefixed.
\<close>

definition readInput :: "libraries \<Rightarrow> string \<Rightarrow> string \<Rightarrow> error + string \<times> string" where
  \<comment> \<open>the working content and the working type\<close>
  "readInput libs content input =
     (if input = ''txt'' then Inr (content, ''text'')
      else if input = ''md'' then Inr (content, ''markdown'')
      else if input = ''html'' then Inr (content, ''html'')
      else if input = ''docx'' then
        (case mammoth libs of
           None \<Rightarrow> Inl (Error
             ''Mammoth library not available for DOCX processing. Install with: npm install mammoth'')
         | Some extractRawText \<Rightarrow> andThen (extractRawText content) (\<lambda>v. Inr (v, ''text'')))
      else if input = ''pdf'' then
        (case pdfParse libs of
           None \<Rightarrow> Inl (Error
             ''pdf-parse library not available for PDF processing. Install with: npm install pdf-parse'')
         | Some parse \<Rightarrow> andThen (parse content) (\<lambda>t. Inr (t, ''text'')))
      else Inr (content, ''text''))"

definition writeOutput :: "libraries \<Rightarrow> string \<Rightarrow> string \<Rightarrow> string \<Rightarrow> error + string" where
  "writeOutput libs workingContent workingType output =
     (if output = ''txt'' then
        (if workingType = ''html'' then Inr (convertHtmlToText workingContent)
         else if workingType = ''markdown'' then Inr (replace workingContent (oneOf ''#*_`'' []))
         else Inr workingContent)
      else if output = ''md'' then
        (if workingType = ''text'' then Inr (convertTextToMarkdown workingContent)
         else if workingType = ''html'' then convertHtmlToMarkdown libs workingContent
         else Inr workingContent)
      else if output = ''html'' then
        (if workingType = ''markdown'' then convertMarkdownToHtml libs workingContent
         else if workingType = ''text'' then Inr (textToHtmlDocument workingContent)
         else Inr workingContent)
      else if output = ''pdf'' then convertToPdf libs workingContent workingType
      else if output = ''docx'' then convertToDocx libs workingContent workingType
      else Inl (Error (''Output format '' @ [CHR 0x27] @ output @ [CHR 0x27]
                       @ '' conversion not implemented'')))"

definition StdioServer_convertDocument ::
  "libraries \<Rightarrow> string \<Rightarrow> string \<Rightarrow> string \<Rightarrow> string option \<Rightarrow> error + string" where
  "StdioServer_convertDocument libs content inputFormat outputFormat filename =
     (let input = trim (toLowerCase inputFormat);
          output = trim (toLowerCase outputFormat)
      in if \<not> List.member SUPPORTED_FORMATS_input input then
           Inl (Error (''Unsupported input format '' @ [CHR 0x27] @ input @ [CHR 0x27]
                       @ ''. Supported: '' @ join SUPPORTED_FORMATS_input '', ''))
         else if \<not> List.member SUPPORTED_FORMATS_output output then
           Inl (Error (''Unsupported output format '' @ [CHR 0x27] @ output @ [CHR 0x27]
                       @ ''. Supported: '' @ join SUPPORTED_FORMATS_output '', ''))
         else
           (case andThen (readInput libs content input)
                   (\<lambda>(workingContent, workingType). writeOutput libs workingContent workingType output) of
              Inl e \<Rightarrow> Inl (Error (''Conversion failed: '' @ message e))
            | Inr result \<Rightarrow> Inr result))"

section \<open>The HTTP server: conversions\<close>

text \<open>The methods of the class \<open>DocumentConverterServer\<close>.\<close>

definition HttpServer_convertToText :: "string \<Rightarrow> string \<Rightarrow> string" where
  "HttpServer_convertToText content inputType =
     (if inputType = ''html'' then
        trim (replace (replace content (tag False)) (whiteSpaceRun '' ''))
      else if inputType = ''md'' then
        trim (replace (replace content (oneOf ''#*`_[]()'' [])) (whiteSpaceRun '' ''))
      else content)"

definition HttpServer_markdownLine :: "string \<Rightarrow> string" where
  \<comment> \<open>the function mapped over the lines in \<open>convertToMarkdown\<close>\<close>
  "HttpServer_markdownLine line =
     (if trim line = [] then []
      else if toUpperCase line = Some line \<and> length line > 3
        then ''# '' @ replace (toLowerCase line) wordStart
      else if endsWith line '':'' then ''## '' @ butlast line
      else line)"

definition HttpServer_convertToMarkdown :: "libraries \<Rightarrow> string \<Rightarrow> string \<Rightarrow> error + string" where
  "HttpServer_convertToMarkdown libs content inputType =
     (case (if inputType = ''html'' then turndown libs else None) of
        Some service \<Rightarrow> service content
      | None \<Rightarrow>
          if inputType = ''txt'' then
            (let lines = split content ''\<newline>'' in
             Inr (join (map HttpServer_markdownLine lines) ''\<newline>''))
          else Inr content)"

definition heading :: "string \<Rightarrow> string \<Rightarrow> regExp" where
  \<comment> \<open>\<open>/^### (.*$)/gim\<close> replaced by \<open><h3>$1</h3>\<close>, for the marks \<open>###\<close> and the
      element \<open>h3\<close>; the pattern has no letter, so the flag \<open>i\<close> changes nothing\<close>
  "heading marks name prev s =
     (if (case prev of None \<Rightarrow> True | Some p \<Rightarrow> isLineTerminator p) \<and> startsWith s (marks @ '' '')
      then (let line = takeWhile (\<lambda>c. \<not> isLineTerminator c) (drop (length marks + 1) s) in
            Some (length marks + 1 + length line,
                  ''<'' @ name @ ''>'' @ line @ ''</'' @ name @ ''>''))
      else None)"

definition between :: "string \<Rightarrow> string \<Rightarrow> (char \<Rightarrow> bool) \<Rightarrow> string \<Rightarrow> string \<Rightarrow> regExp" where
  \<comment> \<open>an opening literal, a lazy group of allowed code units and a closing literal,
      replaced by the group between \<open>left\<close> and \<open>right\<close>\<close>
  "between opening closing allowed left right prev s =
     (if startsWith s opening then
        (let body = drop (length opening) s in
         case lazyUntil (\<lambda>t. startsWith t closing) allowed body of
           None \<Rightarrow> None
         | Some k \<Rightarrow> Some (length opening + k + length closing, left @ take k body @ right))
      else None)"

definition headingClose :: "string \<Rightarrow> bool" where
  \<comment> \<open>\<open><\/h[1-6]><\/p>\<close> at the head of the input\<close>
  "headingClose t =
     (startsWith t ''</h'' \<and>
      (case drop 3 t of [] \<Rightarrow> False | d # r \<Rightarrow> d \<in> set ''123456'' \<and> startsWith r ''></p>''))"

definition paragraphHeading :: regExp where
  \<comment> \<open>\<open>/<p>(<h[1-6]>.*?<\/h[1-6]>)<\/p>/g\<close> replaced by \<open>$1\<close>\<close>
  "paragraphHeading prev s =
     (case drop 5 s of
        d # g # body \<Rightarrow>
          if startsWith s ''<p><h'' \<and> d \<in> set ''123456'' \<and> g = CHR ''>'' then
            (case lazyUntil headingClose (\<lambda>c. \<not> isLineTerminator c) body of
               None \<Rightarrow> None
             | Some k \<Rightarrow> Some (7 + k + 9, take (4 + k + 5) (drop 3 s)))
          else None
      | _ \<Rightarrow> None)"

definition simpleMarkdownToHtml :: "string \<Rightarrow> string" where
  "simpleMarkdownToHtml markdown =
     (let html = markdown;
          html = replace (replace (replace html (literal ''&'' ''&amp;'')) (literal ''<'' ''&lt;''))
                   (literal ''>'' ''&gt;'');
          html = replace html (heading ''###'' ''h3'');
          html = replace html (heading ''##'' ''h2'');
          html = replace html (heading ''#'' ''h1'');
          html = replace html
                   (between ''**'' ''**'' (\<lambda>c. \<not> isLineTerminator c) ''<strong>'' ''</strong>'');
          html = replace html (between ''*'' ''*'' (\<lambda>c. \<not> isLineTerminator c) ''<em>'' ''</em>'');
          html = replace html (between ''```'' ''```'' (\<lambda>c. True) ''<pre><code>'' ''</code></pre>'');
          html = replace html (between ''`'' ''`'' (\<lambda>c. \<not> isLineTerminator c) ''<code>'' ''</code>'');
          html = replace html (literal ''\<newline>\<newline>'' ''</p><p>'');
          html = replace html (literal ''\<newline>'' ''<br>'');
          html = ''<p>'' @ html @ ''</p>'';
          html = replace html (literal ''<p></p>'' []);
          html = replace html paragraphHeading;
          html = replace html
                   (between ''<p><pre>'' ''</pre></p>'' (\<lambda>c. \<not> isLineTerminator c) ''<pre>'' ''</pre>'')
      in html)"

definition HttpServer_convertToHtml :: "libraries \<Rightarrow> string \<Rightarrow> string \<Rightarrow> error + string" where
  "HttpServer_convertToHtml libs content inputType =
     (if inputType = ''md'' then
        (case marked libs of
           Some parse \<Rightarrow>
             andThen (parse content) (\<lambda>parsed. Inr (
               ''<!DOCTYPE html>\<newline>''
               @ ''<html>\<newline>''
               @ ''<head>\<newline>''
               @ ''    <meta charset=\"utf-8\">\<newline>''
               @ ''    <title>Converted Document</title>\<newline>''
               @ ''    <style>\<newline>''
               @ ''        body { font-family: Arial, sans-serif; margin: 40px; line-height: 1.6; }\<newline>''
               @ ''        code { background-color: #f4f4f4; padding: 2px 4px; border-radius: 3px; }\<newline>''
               @ ''        pre { background-color: #f4f4f4; padding: 10px; border-radius: 5px; overflow-x: auto; }\<newline>''
               @ ''    </style>\<newline>''
               @ ''</head>\<newline>''
               @ ''<body>\<newline>''
               @ parsed
               @ ''\<newline>''
               @ ''</body>\<newline>''
               @ ''</html>''))
         | None \<Rightarrow>
             (let htmlContent = simpleMarkdownToHtml content in
              Inr (
               ''<!DOCTYPE html>\<newline>''
               @ ''<html>\<newline>''
               @ ''<head>\<newline>''
               @ ''    <meta charset=\"utf-8\">\<newline>''
               @ ''    <title>Converted Document</title>\<newline>''
               @ ''    <style>\<newline>''
               @ ''        body { font-family: Arial, sans-serif; margin: 40px; line-height: 1.6; }\<newline>''
               @ ''        h1, h2, h3, h4, h5, h6 { color: #333; }\<newline>''
               @ ''        code { background-color: #f4f4f4; padding: 2px 4px; border-radius: 3px; }\<newline>''
               @ ''        pre { background-color: #f4f4f4; padding: 10px; border-radius: 5px; overflow-x: auto; }\<newline>''
               @ ''    </style>\<newline>''
               @ ''</head>\<newline>''
               @ ''<body>\<newline>''
               @ htmlContent
               @ ''\<newline>''
               @ ''</body>\<newline>''
               @ ''</html>'')))
      else if inputType = ''txt'' then
        (let escaped = replace (replace (replace content (literal ''&'' ''&amp;''))
                                  (literal ''<'' ''&lt;'')) (literal ''>'' ''&gt;'')
         in Inr (
              ''<!DOCTYPE html>\<newline>''
              @ ''<html>\<newline>''
              @ ''<head>\<newline>''
              @ ''    <meta charset=\"utf-8\">\<newline>''
              @ ''    <title>Text Document</title>\<newline>''
              @ ''</head>\<newline>''
              @ ''<body>\<newline>''
              @ ''<pre>'' @ escaped @ ''</pre>\<newline>''
              @ ''</body>\<newline>''
              @ ''</html>''))
      else Inr content)"

definition HttpServer_convertToPdf :: "libraries \<Rightarrow> string \<Rightarrow> string \<Rightarrow> error + string" where
  "HttpServer_convertToPdf libs content inputType =
     (case puppeteer libs of
        None \<Rightarrow> Inl (Error ''PDF conversion requires puppeteer'')
      | Some launch \<Rightarrow>
          andThen launch (\<lambda>page.
          andThen (if inputType \<noteq> ''html'' then HttpServer_convertToHtml libs content inputType
                   else Inr content) (\<lambda>htmlContent.
          page htmlContent)))"

definition HttpServer_convertToDocx :: "string \<Rightarrow> string \<Rightarrow> error + string" where
  "HttpServer_convertToDocx content inputType =
     Inl (Error ''DOCX generation not implemented in this demo'')"

definition HttpServer_working :: "libraries \<Rightarrow> string \<Rightarrow> string \<Rightarrow> error + string \<times> string" where
  \<comment> \<open>the working content and the working type of \<open>convertDocument\<close>\<close>
  "HttpServer_working libs content inputFormat =
     (case (if inputFormat = ''docx'' then mammoth libs else None) of
        Some extractRawText \<Rightarrow> andThen (extractRawText content) (\<lambda>v. Inr (v, ''txt''))
      | None \<Rightarrow>
          (case (if inputFormat = ''pdf'' then pdfParse libs else None) of
             Some parse \<Rightarrow> andThen (parse content) (\<lambda>t. Inr (t, ''txt''))
           | None \<Rightarrow> Inr (content, inputFormat)))"

definition HttpServer_convertDocument ::
  "libraries \<Rightarrow> string \<Rightarrow> string \<Rightarrow> string \<Rightarrow> string option \<Rightarrow> error + string" where
  "HttpServer_convertDocument libs content inputFormat outputFormat filename =
     (case (if inputFormat = outputFormat then Inr content
            else andThen (HttpServer_working libs content inputFormat)
                   (\<lambda>(workingContent, workingType).
                      if outputFormat = ''txt'' then
                        Inr (HttpServer_convertToText workingContent workingType)
                      else if outputFormat = ''md'' then
                        HttpServer_convertToMarkdown libs workingContent workingType
                      else if outputFormat = ''html'' then
                        HttpServer_convertToHtml libs workingContent workingType
                      else if outputFormat = ''pdf'' then
                        HttpServer_convertToPdf libs workingContent workingType
                      else if outputFormat = ''docx'' then
                        HttpServer_convertToDocx workingContent workingType
                      else Inl (Error (''Unsupported output format: '' @ outputFormat)))) of
        Inl e \<Rightarrow> Inl (Error (''Conversion failed: '' @ errorToString e))
      | Inr result \<Rightarrow> Inr result)"

section \<open>Batch conversion\<close>

fun natToString :: "nat \<Rightarrow> string" where
  \<comment> \<open>the decimal text of a number of the range of array indices, as \<open>`${n}`\<close> gives it\<close>
  "natToString n =
     (if n < 10 then [digits ! n] else natToString (n div 10) @ [digits ! (n mod 10)])"

declare natToString.simps [simp del]

definition orElse :: "string \<Rightarrow> string \<Rightarrow> string" where
  \<comment> \<open>\<open>a || b\<close> on a string \<open>a\<close>: the empty string is falsy\<close>
  "orElse a b = (if a = [] then b else a)"

definition orElseOpt :: "string option \<Rightarrow> string \<Rightarrow> string" where
  \<comment> \<open>\<open>a || b\<close> on an optional string \<open>a\<close>: \<open>undefined\<close> and the empty string are falsy\<close>
  "orElseOpt a b = (case a of None \<Rightarrow> b | Some v \<Rightarrow> orElse v b)"

record ConversionFile =
  content :: string
  input_format :: string
  filename :: "string option"

text \<open>
  An entry of \<open>results\<close>: \<open>{filename, status: "success", content}\<close> or
  \<open>{filename, status: "error", error}\<close>.
\<close>

datatype batchResult =
  Converted string string
| Failed string string

fun resultFilename :: "batchResult \<Rightarrow> string" where
  "resultFilename (Converted name c) = name"
| "resultFilename (Failed name e) = name"

fun status :: "batchResult \<Rightarrow> string" where
  "status (Converted name c) = ''success''"
| "status (Failed name e) = ''error''"

definition batchHeader :: "nat \<Rightarrow> string \<Rightarrow> string" where
  \<comment> \<open>the first two lines of the report, the same text in both classes\<close>
  "batchHeader n outputFormat =
     ''Batch Conversion Results ('' @ natToString n @ '' files to '' @ outputFormat @ '')\<newline>''
     @ replicate 50 (CHR ''='') @ ''\<newline>\<newline>''"

definition StdioServer_batchEntry :: "libraries \<Rightarrow> string \<Rightarrow> nat \<Rightarrow> ConversionFile \<Rightarrow> batchResult" where
  \<comment> \<open>the body of the first loop of \<open>convertFileBatch\<close>: the entry pushed for \<open>files[i]\<close>\<close>
  "StdioServer_batchEntry libs outputFormat i fileInfo =
     (let content' = orElse (content fileInfo) [];
          inputFormat = orElse (input_format fileInfo) ''txt'';
          filename' = orElseOpt (filename fileInfo) (''file_'' @ natToString (i + 1))
      in case StdioServer_convertDocument libs content' inputFormat outputFormat (Some filename') of
           Inr converted \<Rightarrow> Converted filename' converted
         | Inl e \<Rightarrow> Failed filename' (message e))"

fun StdioServer_batchLoop ::
  "libraries \<Rightarrow> string \<Rightarrow> nat \<Rightarrow> ConversionFile list \<Rightarrow> batchResult list \<Rightarrow> batchResult list" where
  \<comment> \<open>\<open>for (let i = 0; i < files.length; i++)\<close>, from the index \<open>i\<close> on, the files left\<close>
  "StdioServer_batchLoop libs outputFormat i [] results = results"
| "StdioServer_batchLoop libs outputFormat i (fileInfo # files) results =
     StdioServer_batchLoop libs outputFormat (i + 1) files
       (results @ [StdioServer_batchEntry libs outputFormat i fileInfo])"

definition StdioServer_block :: "batchResult \<Rightarrow> string" where
  \<comment> \<open>the body of the second loop: the text appended to \<open>output\<close> for one entry\<close>
  "StdioServer_block result =
     ''File: '' @ resultFilename result @ ''\<newline>''
     @ ''Status: '' @ status result @ ''\<newline>''
     @ (case result of
          Failed name e \<Rightarrow> ''Error: '' @ e @ ''\<newline>''
        | Converted name c \<Rightarrow>
            (let contentPreview = (if length c > 100 then take 100 c @ ''...'' else c) in
             ''Content Preview: '' @ contentPreview @ ''\<newline>''))
     @ replicate 30 (CHR ''-'') @ ''\<newline>''"

fun StdioServer_reportLoop :: "batchResult list \<Rightarrow> string \<Rightarrow> string" where
  "StdioServer_reportLoop [] output = output"
| "StdioServer_reportLoop (result # results) output =
     StdioServer_reportLoop results (output @ StdioServer_block result)"

definition StdioServer_convertFileBatch :: "libraries \<Rightarrow> ConversionFile list \<Rightarrow> string \<Rightarrow> string" where
  "StdioServer_convertFileBatch libs files outputFormat =
     (let results = StdioServer_batchLoop libs outputFormat 0 files [] in
      StdioServer_reportLoop results (batchHeader (length files) outputFormat))"

definition HttpServer_batchEntry :: "libraries \<Rightarrow> string \<Rightarrow> nat \<Rightarrow> ConversionFile \<Rightarrow> batchResult" where
  \<comment> \<open>the body of the loop of \<open>convertFileBatch\<close>; the entry of a success holds the preview\<close>
  "HttpServer_batchEntry libs outputFormat i file =
     (case HttpServer_convertDocument libs (content file) (input_format file) outputFormat
             (filename file) of
        Inr converted \<Rightarrow>
          Converted (orElseOpt (filename file) (''file_'' @ natToString (i + 1)))
            (take 100 converted @ (if length converted > 100 then ''...'' else []))
      | Inl e \<Rightarrow>
          Failed (orElseOpt (filename file) (''file_'' @ natToString (i + 1))) (errorToString e))"

fun HttpServer_batchLoop ::
  "libraries \<Rightarrow> string \<Rightarrow> nat \<Rightarrow> ConversionFile list \<Rightarrow> batchResult list \<Rightarrow> batchResult list" where
  "HttpServer_batchLoop libs outputFormat i [] results = results"
| "HttpServer_batchLoop libs outputFormat i (file # files) results =
     HttpServer_batchLoop libs outputFormat (i + 1) files
       (results @ [HttpServer_batchEntry libs outputFormat i file])"

definition HttpServer_block :: "batchResult \<Rightarrow> string" where
  "HttpServer_block r =
     ''File: '' @ resultFilename r @ ''\<newline>''
     @ ''Status: '' @ status r @ ''\<newline>''
     @ (case r of
          Failed name e \<Rightarrow> ''Error: '' @ e @ ''\<newline>''
        | Converted name c \<Rightarrow> ''Preview: '' @ c @ ''\<newline>'')
     @ replicate 30 (CHR ''-'') @ ''\<newline>''"

definition HttpServer_convertFileBatch :: "libraries \<Rightarrow> ConversionFile list \<Rightarrow> string \<Rightarrow> string" where
  "HttpServer_convertFileBatch libs files outputFormat =
     (let results = HttpServer_batchLoop libs outputFormat 0 files [] in
      batchHeader (length files) outputFormat @ join (map HttpServer_block results) [])"

definition noLibraries :: libraries where
  \<comment> \<open>a process in which no optional dependency could be loaded\<close>
  "noLibraries =
     \<lparr>marked = None, turndown = None, puppeteer = None, officegen = None, mammoth = None,
      pdfParse = None\<rparr>"

section \<open>The report of a batch, as the specification words it\<close>

text \<open>
  One block of the report, after the specification: the name of the file, then the
  status \<open>success\<close> with a preview of the first 100 characters of the converted
  content, followed by an ellipsis exactly when the content is longer than 100
  characters, or the status \<open>error\<close> with the message of the failure; a line of
  dashes closes the block. The label before the preview is the one thing in which
  the two servers' blocks differ.
\<close>

definition reportBlockSpec :: "string \<Rightarrow> string \<Rightarrow> string + string \<Rightarrow> string" where
  "reportBlockSpec label name outcome =
     ''File: '' @ name @ ''\<newline>''
     @ (case outcome of
          Inr converted \<Rightarrow>
            ''Status: success\<newline>'' @ label
            @ take 100 converted @ (if length converted > 100 then ''...'' else []) @ ''\<newline>''
        | Inl msg \<Rightarrow> ''Status: error\<newline>Error: '' @ msg @ ''\<newline>'')
     @ replicate 30 (CHR ''-'') @ ''\<newline>''"

section \<open>Auxiliary facts\<close>

lemma join_SUPPORTED_input:
  "join SUPPORTED_FORMATS_input '', '' = ''txt, md, html, docx, pdf, rtf''"
  by (simp add: SUPPORTED_FORMATS_input_def)

lemma join_SUPPORTED_output:
  "join SUPPORTED_FORMATS_output '', '' = ''txt, md, html, docx, pdf, rtf''"
  by (simp add: SUPPORTED_FORMATS_output_def)

lemma norm_txt: "trim (toLowerCase ''txt'') = ''txt''"
  by code_simp

lemma norm_md: "trim (toLowerCase ''md'') = ''md''"
  by code_simp

lemma norm_html: "trim (toLowerCase ''html'') = ''html''"
  by code_simp

subsection \<open>The HTTP server\<close>

lemma HttpServer_identity:
  "HttpServer_convertDocument libs doc f f name = Inr doc"
  by (simp add: HttpServer_convertDocument_def)

lemma HttpServer_unsupported_output:
  assumes "inp \<noteq> out" and "out \<notin> {''txt'', ''md'', ''html'', ''pdf'', ''docx''}"
  shows "HttpServer_convertDocument libs doc inp out name =
     (case HttpServer_working libs doc inp of
        Inl e \<Rightarrow> Inl (Error (''Conversion failed: '' @ errorToString e))
      | Inr w \<Rightarrow> Inl (Error (''Conversion failed: Error: Unsupported output format: '' @ out)))"
  using assms
  by (simp add: HttpServer_convertDocument_def andThen_def errorToString_def
      split: sum.splits prod.splits)


lemma HttpServer_html_to_md:
  assumes "turndown libs = None"
  shows "HttpServer_convertToMarkdown libs h ''html'' = Inr h"
    and "HttpServer_convertDocument libs h ''html'' ''md'' name = Inr h"
  using assms
  by (simp_all add: HttpServer_convertDocument_def HttpServer_working_def andThen_def
      HttpServer_convertToMarkdown_def)

lemma HttpServer_to_txt:
  assumes "inp \<noteq> ''txt''" and "inp \<noteq> ''docx''" and "inp \<noteq> ''pdf''"
  shows "HttpServer_convertDocument libs d inp ''txt'' name = Inr (HttpServer_convertToText d inp)"
  using assms
  by (simp add: HttpServer_convertDocument_def HttpServer_working_def andThen_def)

lemma HttpServer_txt_to_md:
  "HttpServer_convertToMarkdown libs t ''txt'' =
     Inr (join (map HttpServer_markdownLine (split t ''\<newline>'')) ''\<newline>'')"
  by (simp add: HttpServer_convertToMarkdown_def)

lemma HttpServer_txt_md:
  "HttpServer_convertDocument libs t ''txt'' ''md'' name =
     Inr (join (map HttpServer_markdownLine (split t ''\<newline>'')) ''\<newline>'')"
  by (simp add: HttpServer_convertDocument_def HttpServer_working_def andThen_def
      HttpServer_convertToMarkdown_def)

subsection \<open>The stdio server\<close>

lemma StdioServer_identity_text:
  assumes "trim (toLowerCase f) \<in> {''txt'', ''md'', ''html''}"
  shows "StdioServer_convertDocument libs doc f f name = Inr doc"
  using assms
  by (auto simp add: StdioServer_convertDocument_def SUPPORTED_FORMATS_input_def
      SUPPORTED_FORMATS_output_def readInput_def writeOutput_def andThen_def Let_def)

lemma StdioServer_unsupported_input:
  assumes "trim (toLowerCase inp) \<notin> {''txt'', ''md'', ''html'', ''docx'', ''pdf'', ''rtf''}"
  shows "StdioServer_convertDocument libs doc inp out name =
     Inl (Error (''Unsupported input format '' @ [CHR 0x27] @ trim (toLowerCase inp) @ [CHR 0x27]
                 @ ''. Supported: txt, md, html, docx, pdf, rtf''))"
proof -
  have "\<not> List.member SUPPORTED_FORMATS_input (trim (toLowerCase inp))"
    using assms by (simp add: SUPPORTED_FORMATS_input_def)
  then show ?thesis
    by (simp add: StdioServer_convertDocument_def Let_def join_SUPPORTED_input)
qed

lemma StdioServer_unsupported_output:
  assumes "trim (toLowerCase inp) \<in> {''txt'', ''md'', ''html'', ''docx'', ''pdf'', ''rtf''}"
    and "trim (toLowerCase out) \<notin> {''txt'', ''md'', ''html'', ''docx'', ''pdf'', ''rtf''}"
  shows "StdioServer_convertDocument libs doc inp out name =
     Inl (Error (''Unsupported output format '' @ [CHR 0x27] @ trim (toLowerCase out) @ [CHR 0x27]
                 @ ''. Supported: txt, md, html, docx, pdf, rtf''))"
proof -
  have "List.member SUPPORTED_FORMATS_input (trim (toLowerCase inp))"
    using assms(1) by (simp add: SUPPORTED_FORMATS_input_def)
  moreover have "\<not> List.member SUPPORTED_FORMATS_output (trim (toLowerCase out))"
    using assms(2) by (simp add: SUPPORTED_FORMATS_output_def)
  ultimately show ?thesis
    by (simp add: StdioServer_convertDocument_def Let_def join_SUPPORTED_output)
qed


lemma StdioServer_html_to_md:
  assumes "turndown libs = None" and "trim (toLowerCase inp) = ''html''"
    and "trim (toLowerCase out) = ''md''"
  shows "StdioServer_convertDocument libs h inp out name =
     Inr (convertTextToMarkdown (convertHtmlToText h))"
  using assms
  by (simp add: StdioServer_convertDocument_def SUPPORTED_FORMATS_input_def
      SUPPORTED_FORMATS_output_def Let_def andThen_def readInput_def writeOutput_def
      convertHtmlToMarkdown_def)

lemma StdioServer_txt_txt:
  "StdioServer_convertDocument libs s ''txt'' ''txt'' name = Inr s"
  by (simp add: StdioServer_convertDocument_def SUPPORTED_FORMATS_input_def norm_txt
      SUPPORTED_FORMATS_output_def Let_def andThen_def readInput_def writeOutput_def)

lemma StdioServer_html_txt:
  "StdioServer_convertDocument libs h ''html'' ''txt'' name = Inr (convertHtmlToText h)"
  by (simp add: StdioServer_convertDocument_def SUPPORTED_FORMATS_input_def norm_html norm_txt
      SUPPORTED_FORMATS_output_def Let_def andThen_def readInput_def writeOutput_def)

lemma StdioServer_txt_md:
  "StdioServer_convertDocument libs t ''txt'' ''md'' name = Inr (convertTextToMarkdown t)"
  by (simp add: StdioServer_convertDocument_def SUPPORTED_FORMATS_input_def norm_md norm_txt
      SUPPORTED_FORMATS_output_def Let_def andThen_def readInput_def writeOutput_def)

lemma StdioServer_md_txt:
  "StdioServer_convertDocument libs m ''md'' ''txt'' name = Inr (replace m (oneOf ''#*_`'' []))"
  by (simp add: StdioServer_convertDocument_def SUPPORTED_FORMATS_input_def norm_md norm_txt
      SUPPORTED_FORMATS_output_def Let_def andThen_def readInput_def writeOutput_def)

subsection \<open>The lines of a text\<close>

lemma splitFrom_not_Nil: "splitFrom sep n s \<noteq> []"
  by (induction sep n s rule: splitFrom.induct) (simp_all split: list.splits)

lemma splitFrom_newline: "splitFrom ''\<newline>'' 0 (CHR ''\<newline>'' # r) = [] # splitFrom ''\<newline>'' 0 r"
  by (simp add: startsWith_def)

lemma splitFrom_line:
  assumes "CHR ''\<newline>'' \<notin> set l" and "splitFrom ''\<newline>'' 0 r = p # ps"
  shows "splitFrom ''\<newline>'' 0 (l @ r) = (l @ p) # ps"
  using assms by (induction l) (auto simp add: startsWith_def)

lemma split_join_lines:
  assumes "ls \<noteq> []" and "\<forall>l \<in> set ls. CHR ''\<newline>'' \<notin> set l"
  shows "split (join ls ''\<newline>'') ''\<newline>'' = ls"
  using assms
proof (induction ls rule: induct_list012)
  case 1
  then show ?case by simp
next
  case (2 l)
  then have "splitFrom ''\<newline>'' 0 (l @ []) = (l @ []) # []"
    by (intro splitFrom_line) simp_all
  then show ?case
    by (simp add: split_def)
next
  case (3 l y ys)
  then have "splitFrom ''\<newline>'' 0 (join (y # ys) ''\<newline>'') = y # ys"
    by (simp add: split_def)
  then have "splitFrom ''\<newline>'' 0 (CHR ''\<newline>'' # join (y # ys) ''\<newline>'') = [] # y # ys"
    by (simp only: splitFrom_newline)
  moreover have "CHR ''\<newline>'' \<notin> set l"
    using 3 by simp
  ultimately have "splitFrom ''\<newline>'' 0 (l @ CHR ''\<newline>'' # join (y # ys) ''\<newline>'') = (l @ []) # y # ys"
    by (intro splitFrom_line)
  then show ?case
    by (simp add: split_def)
qed

subsection \<open>The loops of the batch\<close>

lemma StdioServer_batchLoop_map:
  "StdioServer_batchLoop libs out i files results =
     results @ map (\<lambda>(j, file). StdioServer_batchEntry libs out j file) (List.enumerate i files)"
  by (induction files arbitrary: i results) simp_all

lemma HttpServer_batchLoop_map:
  "HttpServer_batchLoop libs out i files results =
     results @ map (\<lambda>(j, file). HttpServer_batchEntry libs out j file) (List.enumerate i files)"
  by (induction files arbitrary: i results) simp_all

lemma StdioServer_reportLoop_concat:
  "StdioServer_reportLoop results acc = acc @ concat (map StdioServer_block results)"
  by (induction results arbitrary: acc) simp_all

lemma join_empty_concat: "join xs [] = concat xs"
  by (induction xs rule: induct_list012) simp_all

lemma StdioServer_block_entry:
  "StdioServer_block (StdioServer_batchEntry libs out i file) =
     reportBlockSpec ''Content Preview: ''
       (orElseOpt (filename file) (''file_'' @ natToString (i + 1)))
       (case StdioServer_convertDocument libs (content file)
               (if input_format file = [] then ''txt'' else input_format file) out
               (Some (orElseOpt (filename file) (''file_'' @ natToString (i + 1)))) of
          Inl e \<Rightarrow> Inl (message e)
        | Inr converted \<Rightarrow> Inr converted)"
  by (simp add: StdioServer_block_def StdioServer_batchEntry_def reportBlockSpec_def orElse_def
      Let_def split: sum.splits)

lemma HttpServer_block_entry:
  "HttpServer_block (HttpServer_batchEntry libs out i file) =
     reportBlockSpec ''Preview: '' (orElseOpt (filename file) (''file_'' @ natToString (i + 1)))
       (case HttpServer_convertDocument libs (content file) (input_format file) out
               (filename file) of
          Inl e \<Rightarrow> Inl (errorToString e)
        | Inr converted \<Rightarrow> Inr converted)"
  by (simp add: HttpServer_block_def HttpServer_batchEntry_def reportBlockSpec_def
      split: sum.splits)

section \<open>C1: identity conversion\<close>

text \<open>
  C1, as amended. In the HTTP server, for every content, every format string \<open>f\<close>
  and every set of libraries, \<open>convertDocument\<close> with \<open>f\<close> as the input and the
  output format returns the content unchanged: the comparison of the two formats comes
  first, and nothing is read or converted. The stdio server has no such comparison; it
  returns the content unchanged when \<open>f\<close>, lowercased and trimmed, is \<open>txt\<close>,
  \<open>md\<close> or \<open>html\<close>.
\<close>

theorem identity_conversion:
  "HttpServer_convertDocument libs doc f f name = Inr doc \<and>
   (trim (toLowerCase f) \<in> {''txt'', ''md'', ''html''} \<longrightarrow>
      StdioServer_convertDocument libs doc f f name = Inr doc)"
proof (intro conjI impI)
  show "HttpServer_convertDocument libs doc f f name = Inr doc"
    by (rule HttpServer_identity)
next
  assume "trim (toLowerCase f) \<in> {''txt'', ''md'', ''html''}"
  then show "StdioServer_convertDocument libs doc f f name = Inr doc"
    by (rule StdioServer_identity_text)
qed

text \<open>
  The statement of C1 at the content \<open>abc\<close> and the format \<open> HTML \<close>, with no
  library loaded.
\<close>

theorem identity_conversion_witness:
  "HttpServer_convertDocument noLibraries ''abc'' '' HTML '' '' HTML '' None = Inr ''abc'' \<and>
   StdioServer_convertDocument noLibraries ''abc'' '' HTML '' '' HTML '' None = Inr ''abc''"
proof -
  have "trim (toLowerCase '' HTML '') = ''html''"
    by code_simp
  then show ?thesis
    using identity_conversion [of noLibraries "''abc''" "'' HTML ''" None] by simp
qed

text \<open>
  C1 as first stated fails in the stdio server: from \<open>docx\<close> to \<open>docx\<close> with no
  library loaded, the content is not returned; reading the input fails, since mammoth
  is missing.
\<close>

theorem identity_conversion_counterexample:
  "StdioServer_convertDocument noLibraries ''abc'' ''docx'' ''docx'' None =
     Inl (Error
       ''Conversion failed: Mammoth library not available for DOCX processing. Install with: npm install mammoth'')"
  by code_simp

section \<open>C2: formats outside the registry\<close>

text \<open>
  C2, as amended. In the stdio server, an input format that is not one of \<open>txt\<close>,
  \<open>md\<close>, \<open>html\<close>, \<open>docx\<close>, \<open>pdf\<close>, \<open>rtf\<close> once lowercased and trimmed makes
  \<open>convertDocument\<close> fail with the message that quotes the lowercased, trimmed value
  and lists the six formats; so does an output format outside the set, when the input
  format is inside it. The message is not wrapped as a failed conversion. The HTTP
  server has no registry and checks no input format. For an output format it has no
  conversion for (none of \<open>txt\<close>, \<open>md\<close>, \<open>html\<close>, \<open>pdf\<close>, \<open>docx\<close>), different
  from the input format, it always fails as a failed conversion: with the message of
  the failure when reading the input throws, and otherwise with a message that names
  the output format and lists nothing. Reading the input does not throw for an input
  format other than \<open>docx\<close> and \<open>pdf\<close>.
\<close>

theorem unsupported_format:
  "(trim (toLowerCase inp) \<notin> {''txt'', ''md'', ''html'', ''docx'', ''pdf'', ''rtf''} \<longrightarrow>
      StdioServer_convertDocument libs doc inp out name =
        Inl (Error (''Unsupported input format '' @ [CHR 0x27] @ trim (toLowerCase inp) @ [CHR 0x27]
                    @ ''. Supported: txt, md, html, docx, pdf, rtf''))) \<and>
   (trim (toLowerCase inp) \<in> {''txt'', ''md'', ''html'', ''docx'', ''pdf'', ''rtf''} \<and>
    trim (toLowerCase out) \<notin> {''txt'', ''md'', ''html'', ''docx'', ''pdf'', ''rtf''} \<longrightarrow>
      StdioServer_convertDocument libs doc inp out name =
        Inl (Error (''Unsupported output format '' @ [CHR 0x27] @ trim (toLowerCase out) @ [CHR 0x27]
                    @ ''. Supported: txt, md, html, docx, pdf, rtf''))) \<and>
   (inp \<noteq> out \<and> out \<notin> {''txt'', ''md'', ''html'', ''pdf'', ''docx''} \<longrightarrow>
      HttpServer_convertDocument libs doc inp out name =
        (case HttpServer_working libs doc inp of
           Inl e \<Rightarrow> Inl (Error (''Conversion failed: '' @ errorToString e))
         | Inr w \<Rightarrow>
             Inl (Error (''Conversion failed: Error: Unsupported output format: '' @ out)))) \<and>
   (inp \<noteq> ''docx'' \<and> inp \<noteq> ''pdf'' \<longrightarrow> HttpServer_working libs doc inp = Inr (doc, inp))"
proof (intro conjI impI; (elim conjE)?)
  assume "trim (toLowerCase inp) \<notin> {''txt'', ''md'', ''html'', ''docx'', ''pdf'', ''rtf''}"
  then show "StdioServer_convertDocument libs doc inp out name =
        Inl (Error (''Unsupported input format '' @ [CHR 0x27] @ trim (toLowerCase inp) @ [CHR 0x27]
                    @ ''. Supported: txt, md, html, docx, pdf, rtf''))"
    by (rule StdioServer_unsupported_input)
next
  assume "trim (toLowerCase inp) \<in> {''txt'', ''md'', ''html'', ''docx'', ''pdf'', ''rtf''}"
    and "trim (toLowerCase out) \<notin> {''txt'', ''md'', ''html'', ''docx'', ''pdf'', ''rtf''}"
  then show "StdioServer_convertDocument libs doc inp out name =
        Inl (Error (''Unsupported output format '' @ [CHR 0x27] @ trim (toLowerCase out) @ [CHR 0x27]
                    @ ''. Supported: txt, md, html, docx, pdf, rtf''))"
    by (rule StdioServer_unsupported_output)
next
  assume "inp \<noteq> out" and "out \<notin> {''txt'', ''md'', ''html'', ''pdf'', ''docx''}"
  then show "HttpServer_convertDocument libs doc inp out name =
        (case HttpServer_working libs doc inp of
           Inl e \<Rightarrow> Inl (Error (''Conversion failed: '' @ errorToString e))
         | Inr w \<Rightarrow>
             Inl (Error (''Conversion failed: Error: Unsupported output format: '' @ out)))"
    by (rule HttpServer_unsupported_output)
next
  assume "inp \<noteq> ''docx''" and "inp \<noteq> ''pdf''"
  then show "HttpServer_working libs doc inp = Inr (doc, inp)"
    by (simp add: HttpServer_working_def)
qed

text \<open>
  The parts of C2 at concrete requests: the input format of the code units U+00C9,
  \<open>B\<close> and a space, quoted in lower case and trimmed; the output format \<open> Odt\<close>;
  the output format \<open>odt\<close> in the HTTP server, from \<open>txt\<close> and from \<open>docx\<close> with a
  mammoth that throws.
\<close>

theorem unsupported_format_witness:
  "StdioServer_convertDocument noLibraries ''abc'' [CHR 0xC9, CHR ''B'', CHR '' ''] ''txt'' None =
     Inl (Error (''Unsupported input format '' @ [CHR 0x27] @ [CHR 0xE9, CHR ''b''] @ [CHR 0x27]
                 @ ''. Supported: txt, md, html, docx, pdf, rtf'')) \<and>
   StdioServer_convertDocument noLibraries ''abc'' ''txt'' '' Odt'' None =
     Inl (Error (''Unsupported output format '' @ [CHR 0x27] @ ''odt'' @ [CHR 0x27]
                 @ ''. Supported: txt, md, html, docx, pdf, rtf'')) \<and>
   HttpServer_convertDocument noLibraries ''abc'' ''txt'' ''odt'' None =
     Inl (Error ''Conversion failed: Error: Unsupported output format: odt'') \<and>
   HttpServer_convertDocument
       (noLibraries\<lparr>mammoth := Some (\<lambda>c. Inl (Error ''bad zip''))\<rparr>) ''abc'' ''docx'' ''odt'' None =
     Inl (Error ''Conversion failed: Error: bad zip'')"
proof -
  have n1: "trim (toLowerCase [CHR 0xC9, CHR ''B'', CHR '' '']) = [CHR 0xE9, CHR ''b'']"
    by code_simp
  have n2: "trim (toLowerCase '' Odt'') = ''odt''"
    by code_simp
  have w: "HttpServer_working (noLibraries\<lparr>mammoth := Some (\<lambda>c. Inl (Error ''bad zip''))\<rparr>)
      ''abc'' ''docx'' = Inl (Error ''bad zip'')"
    by (simp add: HttpServer_working_def noLibraries_def andThen_def)
  show ?thesis
    using unsupported_format [where inp = "[CHR 0xC9, CHR ''B'', CHR '' '']" and libs = noLibraries
        and doc = "''abc''" and out = "''txt''" and name = None]
      unsupported_format [where inp = "''txt''" and libs = noLibraries and doc = "''abc''"
        and out = "'' Odt''" and name = None]
      unsupported_format [where inp = "''txt''" and libs = noLibraries and doc = "''abc''"
        and out = "''odt''" and name = None]
      unsupported_format [where inp = "''docx''"
        and libs = "noLibraries\<lparr>mammoth := Some (\<lambda>c. Inl (Error ''bad zip''))\<rparr>"
        and doc = "''abc''" and out = "''odt''" and name = None]
    by (simp add: n1 n2 w norm_txt errorToString_def)
qed

text \<open>
  C2 as first stated fails in the HTTP server: the input format \<open>xyz\<close> is not
  refused, and the conversion to \<open>txt\<close> succeeds with the content as it is.
\<close>

theorem unsupported_format_counterexample:
  "HttpServer_convertDocument noLibraries ''abc'' ''xyz'' ''txt'' None = Inr ''abc''"
  by code_simp

section \<open>C3: the report of a batch\<close>

text \<open>
  C3, as amended. For every list of files and every target format, the report of
  either server is the header followed by one block per file, in the order of the
  files. The block of the file at index \<open>i\<close> is a function of that file and of \<open>i\<close>
  alone, so no file changes the block of another: it names the file by its
  \<open>filename\<close>, or by \<open>file_\<close> and \<open>i + 1\<close> when the name is missing or empty, and
  holds the status \<open>success\<close> with the first 100 characters of the converted content,
  followed by \<open>...\<close> exactly when the content is longer, or the status \<open>error\<close> with
  the message of the failure of \<open>convertDocument\<close> on that file. The stdio server
  converts a file whose \<open>input_format\<close> is empty as \<open>txt\<close>; the HTTP server hands
  the \<open>input_format\<close> to \<open>convertDocument\<close> as it is.
\<close>

theorem batch_report:
  "StdioServer_convertFileBatch libs files out =
     batchHeader (length files) out
     @ concat (map (\<lambda>(i, file).
         reportBlockSpec ''Content Preview: ''
           (orElseOpt (filename file) (''file_'' @ natToString (i + 1)))
           (case StdioServer_convertDocument libs (content file)
                   (if input_format file = [] then ''txt'' else input_format file) out
                   (Some (orElseOpt (filename file) (''file_'' @ natToString (i + 1)))) of
              Inl e \<Rightarrow> Inl (message e)
            | Inr converted \<Rightarrow> Inr converted))
        (List.enumerate 0 files)) \<and>
   HttpServer_convertFileBatch libs files out =
     batchHeader (length files) out
     @ concat (map (\<lambda>(i, file).
         reportBlockSpec ''Preview: ''
           (orElseOpt (filename file) (''file_'' @ natToString (i + 1)))
           (case HttpServer_convertDocument libs (content file) (input_format file) out
                   (filename file) of
              Inl e \<Rightarrow> Inl (errorToString e)
            | Inr converted \<Rightarrow> Inr converted))
        (List.enumerate 0 files))"
proof
  show "StdioServer_convertFileBatch libs files out =
     batchHeader (length files) out
     @ concat (map (\<lambda>(i, file).
         reportBlockSpec ''Content Preview: ''
           (orElseOpt (filename file) (''file_'' @ natToString (i + 1)))
           (case StdioServer_convertDocument libs (content file)
                   (if input_format file = [] then ''txt'' else input_format file) out
                   (Some (orElseOpt (filename file) (''file_'' @ natToString (i + 1)))) of
              Inl e \<Rightarrow> Inl (message e)
            | Inr converted \<Rightarrow> Inr converted))
        (List.enumerate 0 files))"
    by (simp add: StdioServer_convertFileBatch_def StdioServer_batchLoop_map
        StdioServer_reportLoop_concat StdioServer_block_entry comp_def case_prod_unfold)
next
  show "HttpServer_convertFileBatch libs files out =
     batchHeader (length files) out
     @ concat (map (\<lambda>(i, file).
         reportBlockSpec ''Preview: ''
           (orElseOpt (filename file) (''file_'' @ natToString (i + 1)))
           (case HttpServer_convertDocument libs (content file) (input_format file) out
                   (filename file) of
              Inl e \<Rightarrow> Inl (errorToString e)
            | Inr converted \<Rightarrow> Inr converted))
        (List.enumerate 0 files))"
    by (simp add: HttpServer_convertFileBatch_def HttpServer_batchLoop_map join_empty_concat
        HttpServer_block_entry comp_def case_prod_unfold)
qed

text \<open>
  C3 on three files in the stdio server, the second with a format outside the
  registry, the third 101 characters long with an empty name: three blocks in the
  order of the files, the second an error that names the format, the third a preview
  of 100 characters and the ellipsis.
\<close>

theorem batch_report_witness:
  "StdioServer_convertFileBatch noLibraries
     [\<lparr>content = ''Notes:'', input_format = '''', filename = None\<rparr>,
      \<lparr>content = ''x'', input_format = ''odt'', filename = Some ''bad.odt''\<rparr>,
      \<lparr>content = replicate 101 (CHR ''a''), input_format = ''txt'', filename = Some ''''\<rparr>]
     ''txt'' =
   ''Batch Conversion Results (3 files to txt)\<newline>'' @ replicate 50 (CHR ''='') @ ''\<newline>\<newline>''
   @ ''File: file_1\<newline>Status: success\<newline>Content Preview: Notes:\<newline>''
   @ replicate 30 (CHR ''-'') @ ''\<newline>''
   @ ''File: bad.odt\<newline>Status: error\<newline>''
   @ ''Error: Unsupported input format '' @ [CHR 0x27] @ ''odt'' @ [CHR 0x27]
   @ ''. Supported: txt, md, html, docx, pdf, rtf\<newline>''
   @ replicate 30 (CHR ''-'') @ ''\<newline>''
   @ ''File: file_3\<newline>Status: success\<newline>Content Preview: '' @ replicate 100 (CHR ''a'')
   @ ''...\<newline>''
   @ replicate 30 (CHR ''-'') @ ''\<newline>''"
  unfolding batch_report [THEN conjunct1]
  by code_simp

text \<open>
  C3 as first stated fails in the HTTP server: a file with an empty \<open>input_format\<close>
  is not converted as \<open>txt\<close>. To Markdown, the content \<open>HELLO\<close> is reported
  unchanged, where the same file with the format \<open>txt\<close> is reported as a heading.
\<close>

theorem batch_report_counterexample:
  "HttpServer_convertFileBatch noLibraries
      [\<lparr>content = ''HELLO'', input_format = '''', filename = None\<rparr>] ''md'' =
     batchHeader 1 ''md'' @ ''File: file_1\<newline>Status: success\<newline>Preview: HELLO\<newline>''
     @ replicate 30 (CHR ''-'') @ ''\<newline>'' \<and>
   HttpServer_convertFileBatch noLibraries
      [\<lparr>content = ''HELLO'', input_format = ''txt'', filename = None\<rparr>] ''md'' =
     batchHeader 1 ''md'' @ ''File: file_1\<newline>Status: success\<newline>Preview: # Hello\<newline>''
     @ replicate 30 (CHR ''-'') @ ''\<newline>''"
  by code_simp


section \<open>C4: HTML to text\<close>

text \<open>
  C4, as amended. Whatever libraries are loaded, converting
  \<open><p>Hello &amp; welcome</p>\<close> from \<open>html\<close> to \<open>txt\<close> gives exactly
  \<open>Hello & welcome\<close> in the stdio server, which removes the tags, decodes the
  entities, collapses the white space and trims, in this order (\<open>convertHtmlToText\<close>).
  The HTTP server removes the tags, collapses the white space and trims, and decodes
  no entity: it gives \<open>Hello &amp; welcome\<close>.
\<close>

theorem html_entities_example:
  "StdioServer_convertDocument libs ''<p>Hello &amp; welcome</p>'' ''html'' ''txt'' name =
     Inr ''Hello & welcome'' \<and>
   HttpServer_convertDocument libs ''<p>Hello &amp; welcome</p>'' ''html'' ''txt'' name =
     Inr ''Hello &amp; welcome''"
proof
  have "convertHtmlToText ''<p>Hello &amp; welcome</p>'' = ''Hello & welcome''"
    by code_simp
  then show "StdioServer_convertDocument libs ''<p>Hello &amp; welcome</p>'' ''html'' ''txt'' name =
     Inr ''Hello & welcome''"
    by (simp only: StdioServer_html_txt)
next
  have "HttpServer_convertToText ''<p>Hello &amp; welcome</p>'' ''html'' = ''Hello &amp; welcome''"
    by code_simp
  moreover have "HttpServer_convertDocument libs ''<p>Hello &amp; welcome</p>'' ''html'' ''txt'' name =
      Inr (HttpServer_convertToText ''<p>Hello &amp; welcome</p>'' ''html'')"
    by (rule HttpServer_to_txt) simp_all
  ultimately show "HttpServer_convertDocument libs ''<p>Hello &amp; welcome</p>'' ''html'' ''txt'' name =
     Inr ''Hello &amp; welcome''"
    by (simp only:)
qed

text \<open>
  C4 as first stated fails in the HTTP server, with no library loaded.
\<close>

theorem html_entities_example_counterexample:
  "HttpServer_convertDocument noLibraries ''<p>Hello &amp; welcome</p>'' ''html'' ''txt'' None \<noteq>
     Inr ''Hello & welcome''"
  by code_simp

section \<open>C5: PDF output without puppeteer\<close>




section \<open>C6: from text to Markdown and back\<close>

text \<open>
  C6, as amended. Whatever libraries are loaded, both servers convert the text
  \<open>Summary:\<close> to the Markdown \<open>## Summary\<close>. Converting that back to \<open>txt\<close>
  gives exactly \<open>Summary\<close> in the HTTP server, which removes the marks, collapses
  the white space and trims; the stdio server removes the marks only, and gives
  \<open> Summary\<close>, with the space that followed them.
\<close>

theorem summary_round_trip:
  "StdioServer_convertDocument libs ''Summary:'' ''txt'' ''md'' name = Inr ''## Summary'' \<and>
   StdioServer_convertDocument libs ''## Summary'' ''md'' ''txt'' name = Inr '' Summary'' \<and>
   HttpServer_convertDocument libs ''Summary:'' ''txt'' ''md'' name = Inr ''## Summary'' \<and>
   HttpServer_convertDocument libs ''## Summary'' ''md'' ''txt'' name = Inr ''Summary''"
proof (intro conjI)
  have "convertTextToMarkdown ''Summary:'' = ''## Summary''"
    by code_simp
  then show "StdioServer_convertDocument libs ''Summary:'' ''txt'' ''md'' name = Inr ''## Summary''"
    by (simp only: StdioServer_txt_md)
next
  have "replace ''## Summary'' (oneOf ''#*_`'' []) = '' Summary''"
    by code_simp
  then show "StdioServer_convertDocument libs ''## Summary'' ''md'' ''txt'' name = Inr '' Summary''"
    by (simp only: StdioServer_md_txt)
next
  have "join (map HttpServer_markdownLine (split ''Summary:'' ''\<newline>'')) ''\<newline>'' = ''## Summary''"
    by code_simp
  then show "HttpServer_convertDocument libs ''Summary:'' ''txt'' ''md'' name = Inr ''## Summary''"
    by (simp only: HttpServer_txt_md)
next
  have "HttpServer_convertToText ''## Summary'' ''md'' = ''Summary''"
    by code_simp
  moreover have "HttpServer_convertDocument libs ''## Summary'' ''md'' ''txt'' name =
      Inr (HttpServer_convertToText ''## Summary'' ''md'')"
    by (rule HttpServer_to_txt) simp_all
  ultimately show "HttpServer_convertDocument libs ''## Summary'' ''md'' ''txt'' name = Inr ''Summary''"
    by (simp only:)
qed

text \<open>
  C6 as first stated fails in the stdio server: the way back does not give
  \<open>Summary\<close>.
\<close>

theorem summary_round_trip_counterexample:
  "StdioServer_convertDocument noLibraries ''Summary:'' ''txt'' ''md'' None = Inr ''## Summary'' \<and>
   StdioServer_convertDocument noLibraries ''## Summary'' ''md'' ''txt'' None \<noteq> Inr ''Summary''"
  by code_simp

section \<open>C7: the length of an uppercase heading\<close>

text \<open>
  C7, as amended. Both servers convert a text to Markdown line by line: for the lines
  \<open>ls\<close> of a text, none holding a newline, the result is the lines converted one by
  one and joined again. A line that is not blank and equals its own upper case becomes
  the heading of level 1, \<open>#\<close> and a space before its lower case with the first
  character of every word capitalised, exactly when it is longer than 3 characters. The
  stdio server tests and measures the trimmed line; the HTTP server the line as it
  is, white space and a carriage return included. Such a line of 3 characters or
  fewer is no heading of level 1: it is left as it is (trimmed, in the stdio server),
  unless it ends in a colon, when it is the heading of level 2 without the colon.
\<close>

theorem heading_threshold:
  "(ls \<noteq> [] \<and> (\<forall>l \<in> set ls. CHR ''\<newline>'' \<notin> set l) \<longrightarrow>
      convertTextToMarkdown (join ls ''\<newline>'') = join (map markdownLine ls) ''\<newline>'' \<and>
      HttpServer_convertToMarkdown libs (join ls ''\<newline>'') ''txt'' =
        Inr (join (map HttpServer_markdownLine ls) ''\<newline>'')) \<and>
   (trim line \<noteq> [] \<and> toUpperCase (trim line) = Some (trim line) \<longrightarrow>
      markdownLine line =
        (if length (trim line) > 3 then ''# '' @ replace (toLowerCase (trim line)) wordStart
         else if endsWith (trim line) '':'' then ''## '' @ butlast (trim line)
         else trim line)) \<and>
   (trim line \<noteq> [] \<and> toUpperCase line = Some line \<longrightarrow>
      HttpServer_markdownLine line =
        (if length line > 3 then ''# '' @ replace (toLowerCase line) wordStart
         else if endsWith line '':'' then ''## '' @ butlast line
         else line))"
proof (intro conjI impI; (elim conjE)?)
  assume "ls \<noteq> []" and "\<forall>l \<in> set ls. CHR ''\<newline>'' \<notin> set l"
  then show "convertTextToMarkdown (join ls ''\<newline>'') = join (map markdownLine ls) ''\<newline>''"
    by (simp add: convertTextToMarkdown_def split_join_lines)
next
  assume "ls \<noteq> []" and "\<forall>l \<in> set ls. CHR ''\<newline>'' \<notin> set l"
  then show "HttpServer_convertToMarkdown libs (join ls ''\<newline>'') ''txt'' =
        Inr (join (map HttpServer_markdownLine ls) ''\<newline>'')"
    by (simp add: HttpServer_txt_to_md split_join_lines)
next
  assume "trim line \<noteq> []" and "toUpperCase (trim line) = Some (trim line)"
  then show "markdownLine line =
        (if length (trim line) > 3 then ''# '' @ replace (toLowerCase (trim line)) wordStart
         else if endsWith (trim line) '':'' then ''## '' @ butlast (trim line)
         else trim line)"
    by (simp add: markdownLine_def Let_def)
next
  assume "trim line \<noteq> []" and "toUpperCase line = Some line"
  then show "HttpServer_markdownLine line =
        (if length line > 3 then ''# '' @ replace (toLowerCase line) wordStart
         else if endsWith line '':'' then ''## '' @ butlast line
         else line)"
    by (simp add: HttpServer_markdownLine_def)
qed

text \<open>
  C7 at the text of the four lines \<open>ABC\<close>, \<open>TEST\<close>, \<open>AB:\<close> and \<open> ABC\<close>, and at
  the lines \<open>TEST\<close> and \<open>ABC\<close>: \<open>ABC\<close> is left as it is and \<open>TEST\<close> becomes
  \<open># Test\<close> in both servers.
\<close>

theorem heading_threshold_witness:
  "convertTextToMarkdown ''ABC\<newline>TEST\<newline>AB:\<newline> ABC'' = ''ABC\<newline># Test\<newline>## AB\<newline>ABC'' \<and>
   HttpServer_convertToMarkdown noLibraries ''ABC\<newline>TEST\<newline>AB:\<newline> ABC'' ''txt'' =
     Inr ''ABC\<newline># Test\<newline>## AB\<newline>#  Abc'' \<and>
   markdownLine ''TEST'' = ''# Test'' \<and> markdownLine ''ABC'' = ''ABC'' \<and>
   HttpServer_markdownLine ''TEST'' = ''# Test'' \<and> HttpServer_markdownLine ''ABC'' = ''ABC''"
proof -
  let ?ls = "[''ABC'', ''TEST'', ''AB:'', '' ABC'']"
  have nl: "\<forall>l \<in> set ?ls. CHR ''\<newline>'' \<notin> set l"
    by simp
  have j: "join ?ls ''\<newline>'' = ''ABC\<newline>TEST\<newline>AB:\<newline> ABC''"
    by simp
  have s: "join (map markdownLine ?ls) ''\<newline>'' = ''ABC\<newline># Test\<newline>## AB\<newline>ABC''"
    by code_simp
  have h: "join (map HttpServer_markdownLine ?ls) ''\<newline>'' = ''ABC\<newline># Test\<newline>## AB\<newline>#  Abc''"
    by code_simp
  have t4: "trim ''TEST'' = ''TEST''" and t3: "trim ''ABC'' = ''ABC''"
    by code_simp+
  have u4: "toUpperCase ''TEST'' = Some ''TEST''" and u3: "toUpperCase ''ABC'' = Some ''ABC''"
    by code_simp+
  have r: "replace (toLowerCase ''TEST'') wordStart = ''Test''"
    by code_simp
  have e: "\<not> endsWith ''ABC'' '':''"
    by code_simp
  show ?thesis
    using heading_threshold [where ls = ?ls and libs = noLibraries and line = "''TEST''"]
      heading_threshold [where ls = ?ls and libs = noLibraries and line = "''ABC''"]
    by (simp only: j s h t4 t3 u4 u3 r e) simp
qed

text \<open>
  C7 as first stated fails: the uppercase line \<open>AB:\<close> of 3 characters is made a
  heading, of level 2, by both servers, and the uppercase line \<open> ABC\<close> of 4
  characters, the first a space, is made none by the stdio server.
\<close>

theorem heading_threshold_counterexample:
  "convertTextToMarkdown ''AB:'' = ''## AB'' \<and>
   HttpServer_convertToMarkdown noLibraries ''AB:'' ''txt'' = Inr ''## AB'' \<and>
   convertTextToMarkdown '' ABC'' = ''ABC''"
  by code_simp

section \<open>C8: HTML to Markdown without turndown\<close>

text \<open>
  C8, as amended. When turndown is not loaded, the stdio server converts HTML to
  Markdown by stripping it to text with \<open>convertHtmlToText\<close> and running the heading
  heuristic \<open>convertTextToMarkdown\<close> on that text, in \<open>convertHtmlToMarkdown\<close> and so
  in \<open>convertDocument\<close> from \<open>html\<close> to \<open>md\<close>. The HTTP server has no such
  fallback: without turndown it returns the HTML unchanged.
\<close>

theorem html_to_markdown_fallback:
  assumes "turndown libs = None"
  shows "convertHtmlToMarkdown libs h = Inr (convertTextToMarkdown (convertHtmlToText h)) \<and>
    StdioServer_convertDocument libs h ''html'' ''md'' name =
      Inr (convertTextToMarkdown (convertHtmlToText h)) \<and>
    HttpServer_convertToMarkdown libs h ''html'' = Inr h \<and>
    HttpServer_convertDocument libs h ''html'' ''md'' name = Inr h"
proof (intro conjI)
  show "convertHtmlToMarkdown libs h = Inr (convertTextToMarkdown (convertHtmlToText h))"
    using assms by (simp add: convertHtmlToMarkdown_def)
next
  show "StdioServer_convertDocument libs h ''html'' ''md'' name =
      Inr (convertTextToMarkdown (convertHtmlToText h))"
    using assms norm_html norm_md by (rule StdioServer_html_to_md)
next
  show "HttpServer_convertToMarkdown libs h ''html'' = Inr h"
    using assms by (rule HttpServer_html_to_md)
next
  show "HttpServer_convertDocument libs h ''html'' ''md'' name = Inr h"
    using assms by (rule HttpServer_html_to_md)
qed

text \<open>
  C8 at the HTML \<open><h1>TITLE</h1>\<close>, with no library loaded.
\<close>

theorem html_to_markdown_fallback_witness:
  "StdioServer_convertDocument noLibraries ''<h1>TITLE</h1>'' ''html'' ''md'' None = Inr ''# Title'' \<and>
   HttpServer_convertDocument noLibraries ''<h1>TITLE</h1>'' ''html'' ''md'' None =
     Inr ''<h1>TITLE</h1>''"
proof -
  have t: "turndown noLibraries = None"
    by (simp add: noLibraries_def)
  have e: "convertTextToMarkdown (convertHtmlToText ''<h1>TITLE</h1>'') = ''# Title''"
    by code_simp
  show ?thesis
    using html_to_markdown_fallback [OF t, of "''<h1>TITLE</h1>''" None] by (simp add: e)
qed

text \<open>
  C8 as first stated fails in the HTTP server, which returns the HTML unchanged.
\<close>

theorem html_to_markdown_fallback_counterexample:
  "HttpServer_convertDocument noLibraries ''<h1>TITLE</h1>'' ''html'' ''md'' None =
     Inr ''<h1>TITLE</h1>''"
  by code_simp

section \<open>C9: plain text to text\<close>

text \<open>
  C9. Converting to text a content that is plain text returns it unchanged, so doing
  it twice is doing it once: for \<open>convertToText\<close> of the HTTP server on the input
  type \<open>txt\<close>, and for the branch of the stdio server for the output \<open>txt\<close> on
  the working type \<open>text\<close>, also through \<open>convertDocument\<close> from \<open>txt\<close> to
  \<open>txt\<close>.
\<close>

theorem convertToText_idempotent:
  "HttpServer_convertToText s ''txt'' = s \<and>
   HttpServer_convertToText (HttpServer_convertToText s ''txt'') ''txt'' =
     HttpServer_convertToText s ''txt'' \<and>
   writeOutput libs s ''text'' ''txt'' = Inr s \<and>
   andThen (writeOutput libs s ''text'' ''txt'') (\<lambda>t. writeOutput libs t ''text'' ''txt'') =
     writeOutput libs s ''text'' ''txt'' \<and>
   StdioServer_convertDocument libs s ''txt'' ''txt'' name = Inr s"
  by (simp add: HttpServer_convertToText_def writeOutput_def andThen_def StdioServer_txt_txt)

section \<open>C10: equal formats in the HTTP server\<close>

text \<open>
  C10. In the HTTP server the comparison of the two formats is the first step of
  \<open>convertDocument\<close>: for every content and every string \<open>f\<close>, registered or not
  (\<open>xyz\<close>, say), the conversion from \<open>f\<close> to \<open>f\<close> succeeds with the content
  unchanged, and no format is refused.
\<close>

theorem identity_before_validation:
  "HttpServer_convertDocument libs doc f f name = Inr doc"
  by (rule HttpServer_identity)

end
